theory Spec2Isabelle
  imports Main "HOL-Library.Sublist"
begin

section \<open>The go-vcr recorder: data model\<close>

text \<open>
  The embedding follows \<^verbatim>\<open>vendor/github.com/dnaeon/go-vcr/recorder/recorder.go\<close>.
  Go structs are records; every field carries a short tag of its struct
  (\<open>rq_\<close> for \<^verbatim>\<open>http.Request\<close>, \<open>rs_\<close> for \<^verbatim>\<open>http.Response\<close>, \<open>cq_\<close> and \<open>cs_\<close> for
  \<^verbatim>\<open>cassette.Request\<close> and \<^verbatim>\<open>cassette.Response\<close>, \<open>i_\<close> for \<^verbatim>\<open>cassette.Interaction\<close>,
  \<open>c_\<close> for \<^verbatim>\<open>cassette.Cassette\<close>, \<open>t_\<close> for \<^verbatim>\<open>Transport\<close>, \<open>r_\<close> for \<^verbatim>\<open>Recorder\<close>),
  because the structs share field names. Strings are byte lists.
\<close>

subsection \<open>Errors and panics\<close>

text \<open>
  A Go \<^verbatim>\<open>error\<close> value. The only distinction the recorder draws between errors is
  \<^verbatim>\<open>os.IsNotExist\<close>, so an error is either one that reports a missing file or any other
  one; both carry their message (\<^verbatim>\<open>err.Error()\<close>).
\<close>

datatype error = ErrNotExist string | ErrOther string

fun Error :: "error \<Rightarrow> string" where
  "Error (ErrNotExist m) = m"
| "Error (ErrOther m) = m"

text \<open>\<^verbatim>\<open>os.IsNotExist(err)\<close>; a nil error is \<open>None\<close>.\<close>

fun os_IsNotExist :: "error option \<Rightarrow> bool" where
  "os_IsNotExist None = False"
| "os_IsNotExist (Some (ErrNotExist m)) = True"
| "os_IsNotExist (Some (ErrOther m)) = False"

text \<open>A call either returns its value or panics with an error value.\<close>

datatype 'a outcome = Return 'a | Panic error

subsection \<open>Recorder states\<close>

text \<open>\<^verbatim>\<open>const ( ModeRecording = iota; ModeReplaying )\<close>; the mode fields are Go \<^verbatim>\<open>int\<close>s.\<close>

definition ModeRecording :: int where
  "ModeRecording = 0"

definition ModeReplaying :: int where
  "ModeReplaying = 1"

subsection \<open>Streams\<close>

text \<open>
  An \<^verbatim>\<open>io.ReadCloser\<close>. \<open>Stream bs e\<close> is a reader whose unread bytes are \<open>bs\<close> and
  which then ends with EOF (\<open>None\<close>) or with a read error; \<open>NopCloser\<close> and
  \<open>TeeReader\<close> are the wrappers \<^verbatim>\<open>ioutil.NopCloser\<close> and \<^verbatim>\<open>io.TeeReader\<close>. The buffer
  a tee writes to is the local \<^verbatim>\<open>reqBody\<close> of \<^verbatim>\<open>requestHandler\<close>; its content is
  computed there.
\<close>

datatype body = Stream string "error option" | NopCloser body | TeeReader body

fun unread :: "body \<Rightarrow> string" where
  "unread (Stream bs e) = bs"
| "unread (NopCloser b) = unread b"
| "unread (TeeReader b) = unread b"

text \<open>The reader after \<open>n\<close> bytes have been read through it.\<close>

fun advance :: "nat \<Rightarrow> body \<Rightarrow> body" where
  "advance n (Stream bs e) = Stream (drop n bs) e"
| "advance n (NopCloser b) = NopCloser (advance n b)"
| "advance n (TeeReader b) = TeeReader (advance n b)"

text \<open>\<^verbatim>\<open>ioutil.ReadAll\<close>: all unread bytes, or the stream's read error.\<close>

fun ReadAll :: "body \<Rightarrow> error + string" where
  "ReadAll (Stream bs None) = Inr bs"
| "ReadAll (Stream bs (Some e)) = Inl e"
| "ReadAll (NopCloser b) = ReadAll b"
| "ReadAll (TeeReader b) = ReadAll b"

subsection \<open>HTTP requests and responses\<close>

type_synonym header = "string \<rightharpoonup> string list"

text \<open>
  \<^verbatim>\<open>http.Request\<close>, with the fields the recorder reads or writes. \<open>rq_URL\<close> is
  \<^verbatim>\<open>r.URL.String()\<close>; \<open>rq_Body\<close> is \<open>None\<close> for a nil body.
\<close>

record http_Request =
  rq_Method :: string
  rq_URL :: string
  rq_Header :: header
  rq_Body :: "body option"
  rq_PostForm :: header

record http_Response =
  rs_Status :: string
  rs_StatusCode :: int
  rs_Proto :: string
  rs_ProtoMajor :: int
  rs_ProtoMinor :: int
  rs_Request :: http_Request
  rs_Header :: header
  rs_Close :: bool
  rs_ContentLength :: int
  rs_Body :: body

subsection \<open>Interactions and cassettes\<close>

text \<open>The struct literal of \<^verbatim>\<open>requestHandler\<close> fixes the fields of an interaction.\<close>

record cassette_Request =
  cq_Body :: string
  cq_Form :: header
  cq_Headers :: header
  cq_URL :: string
  cq_Method :: string

record cassette_Response =
  cs_Body :: string
  cs_Headers :: header
  cs_Status :: string
  cs_Code :: int

record Interaction =
  i_Request :: cassette_Request
  i_Response :: cassette_Response

text \<open>
  Modelled from the spec: the \<^verbatim>\<open>cassette\<close> package is not among the sources. The
  spec (sections 3 and 6) gives a cassette as an ordered sequence of interactions
  identified by a name that maps to durable storage.
\<close>

record Cassette =
  c_Name :: string
  c_Interactions :: "Interaction list"

text \<open>
  Modelled from the spec: \<^verbatim>\<open>cassette.New\<close>, the spec's \<^verbatim>\<open>createEmpty(name)\<close>, which
  creates an empty cassette.
\<close>

definition cassette_New :: "string \<Rightarrow> Cassette" where
  "cassette_New name = \<lparr>c_Name = name, c_Interactions = []\<rparr>"

subsection \<open>Transport and Recorder\<close>

text \<open>
  \<^verbatim>\<open>*cassette.Cassette\<close> is an address into the store of cassette objects, so that the
  recorder and its transport can share one cassette.
\<close>

record Transport =
  t_c :: nat
  t_mode :: int

record Recorder =
  r_mode :: int
  r_cassette :: nat
  r_Transport :: Transport

subsection \<open>The world outside the recorder\<close>

text \<open>
  What the recorder asks of the operating system, of the cassette package and of
  \<^verbatim>\<open>net/http\<close> is not in the sources, so each such call is a parameter. \<open>'x\<close> is the
  state outside the process (files, network). \<open>client_Do\<close> is
  \<^verbatim>\<open>http.DefaultClient.Do\<close>: besides its result it tells how many bytes of the request
  body it has read. \<open>DumpRequestOut\<close>, \<open>ReadRequest\<close> and \<open>ParseForm\<close> are the
  calls that duplicate the request; \<^verbatim>\<open>httputil.DumpRequestOut\<close> hands the request back
  with a body that yields the same bytes, so it is a function of the request.
  \<open>GetInteraction\<close> is modelled from the spec, whose \<^verbatim>\<open>findMatch(cassette, request)\<close>
  yields an interaction or not-found and is a lookup: a function of the cassette and
  the request.
\<close>

record 'x env =
  os_Stat :: "string \<Rightarrow> 'x \<Rightarrow> error option"
  cassette_Load :: "string \<Rightarrow> 'x \<Rightarrow> error + Cassette"
  cassette_Save :: "Cassette \<Rightarrow> 'x \<Rightarrow> error option \<times> 'x"
  GetInteraction :: "Cassette \<Rightarrow> http_Request \<Rightarrow> error + Interaction"
  DumpRequestOut :: "http_Request \<Rightarrow> error + string"
  ReadRequest :: "string \<Rightarrow> error + http_Request"
  ParseForm :: "http_Request \<Rightarrow> error + http_Request"
  client_Do :: "http_Request \<Rightarrow> 'x \<Rightarrow> (nat \<times> (error + http_Response)) \<times> 'x"

text \<open>
  Every call that leaves the process is logged. In the process there is the store
  of cassette objects: every address holds a cassette, and \<open>next_addr\<close> is the next
  address to hand out.
\<close>

datatype io_event =
  EvStat string
| EvLoad string
| EvSave Cassette
| EvDo http_Request

record 'x world =
  heap :: "nat \<Rightarrow> Cassette"
  next_addr :: nat
  ext :: 'x
  io_log :: "io_event list"

text \<open>Allocation of a new cassette object.\<close>

definition alloc :: "Cassette \<Rightarrow> 'x world \<Rightarrow> nat \<times> 'x world" where
  "alloc cas w =
     (next_addr w, w\<lparr>heap := (heap w)(next_addr w := cas), next_addr := Suc (next_addr w)\<rparr>)"

text \<open>
  Modelled from the spec: \<^verbatim>\<open>c.AddInteraction(i)\<close>, the spec's \<^verbatim>\<open>append(cassette,
  interaction)\<close>, which appends in memory, in the order of the calls.
\<close>

definition AddInteraction :: "nat \<Rightarrow> Interaction \<Rightarrow> 'x world \<Rightarrow> 'x world" where
  "AddInteraction c i w =
     w\<lparr>heap := (heap w)(c := (heap w c)\<lparr>c_Interactions := c_Interactions (heap w c) @ [i]\<rparr>)\<rparr>"

section \<open>The recorder's functions\<close>

subsection \<open>requestHandler\<close>

text \<open>
  The request is passed by pointer and its \<^verbatim>\<open>Body\<close> field is assigned, so the request
  is returned with the result. In the recording branch the tee is installed first;
  the real call then reads \<open>n\<close> bytes through it, which are the bytes that end up in
  \<^verbatim>\<open>reqBody\<close>.
\<close>

definition install_tee :: "http_Request \<Rightarrow> http_Request" where
  "install_tee r =
     (case rq_Body r of
        None \<Rightarrow> r
      | Some b \<Rightarrow> r\<lparr>rq_Body := Some (NopCloser (TeeReader b))\<rparr>)"

definition consume :: "nat \<Rightarrow> http_Request \<Rightarrow> http_Request" where
  "consume n r = r\<lparr>rq_Body := map_option (advance n) (rq_Body r)\<rparr>"

definition requestHandler ::
  "'x env \<Rightarrow> http_Request \<Rightarrow> nat \<Rightarrow> int \<Rightarrow> 'x world
     \<Rightarrow> (error + Interaction) \<times> http_Request \<times> 'x world" where
  "requestHandler env r c mode w =
     (if mode = ModeReplaying then (GetInteraction env (heap w c) r, r, w)
      else
        case DumpRequestOut env r of
          Inl err \<Rightarrow> (Inl err, r, w)
        | Inr reqBytes \<Rightarrow>
        (case ReadRequest env reqBytes of
          Inl err \<Rightarrow> (Inl err, r, w)
        | Inr parsedReq \<Rightarrow>
        (case ParseForm env parsedReq of
          Inl err \<Rightarrow> (Inl err, r, w)
        | Inr copiedReq \<Rightarrow>
        (let r1 = install_tee r;
             ((n, res), x) = client_Do env r1 (ext w);
             reqBody = (case rq_Body r1 of None \<Rightarrow> [] | Some b \<Rightarrow> take n (unread b));
             r2 = consume n r1;
             w1 = w\<lparr>ext := x, io_log := io_log w @ [EvDo r1]\<rparr>
         in case res of
              Inl err \<Rightarrow> (Inl err, r2, w1)
            | Inr resp \<Rightarrow>
            (case ReadAll (rs_Body resp) of
              Inl err \<Rightarrow> (Inl err, r2, w1)
            | Inr respBody \<Rightarrow>
            (let interaction =
                   \<lparr>i_Request =
                      \<lparr>cq_Body = reqBody,
                       cq_Form = rq_PostForm copiedReq,
                       cq_Headers = rq_Header r2,
                       cq_URL = rq_URL r2,
                       cq_Method = rq_Method r2\<rparr>,
                    i_Response =
                      \<lparr>cs_Body = respBody,
                       cs_Headers = rs_Header resp,
                       cs_Status = rs_Status resp,
                       cs_Code = rs_StatusCode resp\<rparr>\<rparr>
             in (Inr interaction, r2, AddInteraction c interaction w1)))))))"

subsection \<open>New\<close>

definition New :: "'x env \<Rightarrow> string \<Rightarrow> 'x world \<Rightarrow> (error + Recorder) \<times> 'x world" where
  "New env cassetteName w =
     (let cassetteFile = cassetteName @ ''.yaml'';
          w1 = w\<lparr>io_log := io_log w @ [EvStat cassetteFile]\<rparr>
      in if os_IsNotExist (os_Stat env cassetteFile (ext w)) then
           (let (c, w2) = alloc (cassette_New cassetteName) w1;
                mode = ModeRecording;
                transport = \<lparr>t_c = c, t_mode = mode\<rparr>
            in (Inr \<lparr>r_mode = mode, r_cassette = c, r_Transport = transport\<rparr>, w2))
         else
           (let w2 = w1\<lparr>io_log := io_log w1 @ [EvLoad cassetteName]\<rparr>
            in case cassette_Load env cassetteName (ext w) of
                 Inl err \<Rightarrow> (Inl err, w2)
               | Inr cas \<Rightarrow>
                 (let (c, w3) = alloc cas w2;
                      mode = ModeReplaying;
                      transport = \<lparr>t_c = c, t_mode = mode\<rparr>
                  in (Inr \<lparr>r_mode = mode, r_cassette = c, r_Transport = transport\<rparr>, w3))))"

subsection \<open>Stop\<close>

definition Stop :: "'x env \<Rightarrow> Recorder \<Rightarrow> 'x world \<Rightarrow> error option \<times> 'x world" where
  "Stop env r w =
     (if r_mode r = ModeRecording then
        (let cas = heap w (r_cassette r);
             (res, x) = cassette_Save env cas (ext w);
             w1 = w\<lparr>ext := x, io_log := io_log w @ [EvSave cas]\<rparr>
         in case res of
              Some err \<Rightarrow> (Some err, w1)
            | None \<Rightarrow> (None, w1))
      else (None, w))"

subsection \<open>Transport.RoundTrip\<close>

text \<open>\<^verbatim>\<open>fmt.Errorf("Failed to process request for URL %s: %s", r.URL, err)\<close>\<close>

definition process_failure :: "http_Request \<Rightarrow> error \<Rightarrow> error" where
  "process_failure r err =
     ErrOther (''Failed to process request for URL '' @ rq_URL r @ '': '' @ Error err)"

definition RoundTrip ::
  "'x env \<Rightarrow> Transport \<Rightarrow> http_Request \<Rightarrow> 'x world
     \<Rightarrow> (error + http_Response) outcome \<times> http_Request \<times> 'x world" where
  "RoundTrip env t r w =
     (case requestHandler env r (t_c t) (t_mode t) w of
        (Inl err, r1, w1) \<Rightarrow> (Panic (process_failure r1 err), r1, w1)
      | (Inr interaction, r1, w1) \<Rightarrow>
        (let buf = cs_Body (i_Response interaction)
         in (Return (Inr
               \<lparr>rs_Status = cs_Status (i_Response interaction),
                rs_StatusCode = cs_Code (i_Response interaction),
                rs_Proto = ''HTTP/1.0'',
                rs_ProtoMajor = 1,
                rs_ProtoMinor = 0,
                rs_Request = r1,
                rs_Header = cs_Headers (i_Response interaction),
                rs_Close = True,
                rs_ContentLength = int (length buf),
                rs_Body = NopCloser (Stream buf None)\<rparr>), r1, w1)))"

text \<open>\<^verbatim>\<open>CancelRequest\<close> has an empty body.\<close>

definition CancelRequest :: "Transport \<Rightarrow> http_Request \<Rightarrow> 'x world \<Rightarrow> 'x world" where
  "CancelRequest t req w = w"

section \<open>Using a recorder\<close>

text \<open>
  What a client does with a recorder: requests through its transport, cancellations
  and stops, in any order. A panic ends the run (the process aborts) in the state
  reached.
\<close>

datatype op = OpRoundTrip http_Request | OpCancelRequest http_Request | OpStop

fun run_ops :: "'x env \<Rightarrow> Recorder \<Rightarrow> op list \<Rightarrow> 'x world \<Rightarrow> 'x world" where
  "run_ops env rec [] w = w"
| "run_ops env rec (OpRoundTrip r # ops) w =
     (case RoundTrip env (r_Transport rec) r w of
        (Panic e, r1, w1) \<Rightarrow> w1
      | (Return res, r1, w1) \<Rightarrow> run_ops env rec ops w1)"
| "run_ops env rec (OpCancelRequest r # ops) w =
     run_ops env rec ops (CancelRequest (r_Transport rec) r w)"
| "run_ops env rec (OpStop # ops) w = run_ops env rec ops (snd (Stop env rec w))"

section \<open>A concrete environment\<close>

text \<open>
  An environment to run the definitions in: storage maps a file name to the
  interactions saved under it, the matcher takes the first interaction with the
  request's method and URL, and the network answers every request with
  \<^verbatim>\<open>200 OK\<close> and the body \<^verbatim>\<open>ok\<close> after reading the whole request body.
\<close>

type_synonym files = "string \<rightharpoonup> Interaction list"

definition example_response :: "http_Request \<Rightarrow> http_Response" where
  "example_response r =
     \<lparr>rs_Status = ''200 OK'', rs_StatusCode = 200, rs_Proto = ''HTTP/1.1'',
      rs_ProtoMajor = 1, rs_ProtoMinor = 1, rs_Request = r,
      rs_Header = [''Content-Type'' \<mapsto> [''text/plain'']], rs_Close = False,
      rs_ContentLength = 2, rs_Body = Stream ''ok'' None\<rparr>"

definition example_env :: "files env" where
  "example_env =
     \<lparr>os_Stat = (\<lambda>file x. case x file of
                   None \<Rightarrow> Some (ErrNotExist ''no such file or directory'')
                 | Some s \<Rightarrow> None),
      cassette_Load = (\<lambda>name x. case x (name @ ''.yaml'') of
                   None \<Rightarrow> Inl (ErrNotExist ''no such file or directory'')
                 | Some s \<Rightarrow> Inr \<lparr>c_Name = name, c_Interactions = s\<rparr>),
      cassette_Save = (\<lambda>cas x. (None, x(c_Name cas @ ''.yaml'' \<mapsto> c_Interactions cas))),
      GetInteraction = (\<lambda>cas r.
                 case find (\<lambda>i. cq_Method (i_Request i) = rq_Method r
                                \<and> cq_URL (i_Request i) = rq_URL r) (c_Interactions cas) of
                   None \<Rightarrow> Inl (ErrOther ''requested interaction not found'')
                 | Some i \<Rightarrow> Inr i),
      DumpRequestOut = (\<lambda>r. Inr (rq_Method r @ '' '' @ rq_URL r)),
      ReadRequest = (\<lambda>s. Inr \<lparr>rq_Method = takeWhile (\<lambda>ch. ch \<noteq> CHR '' '') s,
                              rq_URL = drop 1 (dropWhile (\<lambda>ch. ch \<noteq> CHR '' '') s),
                              rq_Header = Map.empty, rq_Body = None,
                              rq_PostForm = Map.empty\<rparr>),
      ParseForm = (\<lambda>r. Inr r),
      client_Do = (\<lambda>r x.
                 ((case rq_Body r of None \<Rightarrow> 0 | Some b \<Rightarrow> length (unread b),
                   Inr (example_response r)), x))\<rparr>"

definition example_world :: "files world" where
  "example_world =
     \<lparr>heap = (\<lambda>a. cassette_New []), next_addr = 0, ext = Map.empty, io_log = []\<rparr>"

text \<open>\<^verbatim>\<open>GET http://example.test/a\<close> without a body, and a \<^verbatim>\<open>POST\<close> with one.\<close>

definition example_get :: http_Request where
  "example_get =
     \<lparr>rq_Method = ''GET'', rq_URL = ''http://example.test/a'', rq_Header = Map.empty,
      rq_Body = None, rq_PostForm = Map.empty\<rparr>"

definition example_post :: http_Request where
  "example_post =
     \<lparr>rq_Method = ''POST'', rq_URL = ''http://example.test/b'', rq_Header = Map.empty,
      rq_Body = Some (Stream ''x=1'' None), rq_PostForm = Map.empty\<rparr>"

text \<open>The same environment with a network that refuses every connection.\<close>

definition unreachable_env :: "files env" where
  "unreachable_env =
     example_env\<lparr>client_Do := (\<lambda>r x. ((0, Inl (ErrOther ''connection refused'')), x))\<rparr>"

text \<open>The same environment with storage that cannot be written.\<close>

definition readonly_env :: "files env" where
  "readonly_env =
     example_env\<lparr>cassette_Save := (\<lambda>cas x. (Some (ErrOther ''read-only file system''), x))\<rparr>"

text \<open>The same environment with cassette files that do not parse.\<close>

definition corrupt_env :: "files env" where
  "corrupt_env =
     example_env\<lparr>cassette_Load := (\<lambda>name x. Inl (ErrOther ''yaml: did not find expected key''))\<rparr>"

text \<open>The same environment with a directory that may not be searched.\<close>

definition denied_env :: "files env" where
  "denied_env =
     example_env\<lparr>os_Stat := (\<lambda>file x. Some (ErrOther ''permission denied'')),
                 cassette_Load := (\<lambda>name x. Inl (ErrOther ''permission denied''))\<rparr>"

text \<open>The interaction that recording \<open>example_get\<close> in \<open>example_env\<close> yields.\<close>

definition example_interaction :: Interaction where
  "example_interaction =
     \<lparr>i_Request =
        \<lparr>cq_Body = [], cq_Form = Map.empty, cq_Headers = Map.empty,
         cq_URL = ''http://example.test/a'', cq_Method = ''GET''\<rparr>,
      i_Response =
        \<lparr>cs_Body = ''ok'', cs_Headers = [''Content-Type'' \<mapsto> [''text/plain'']],
         cs_Status = ''200 OK'', cs_Code = 200\<rparr>\<rparr>"

text \<open>A world in which the cassette file \<^verbatim>\<open>demo.yaml\<close> holds that interaction.\<close>

definition stored_world :: "files world" where
  "stored_world = example_world\<lparr>ext := [''demo.yaml'' \<mapsto> [example_interaction]]\<rparr>"





text \<open>A replaying recorder: the one created over \<open>stored_world\<close>.\<close>

definition replay_recorder :: Recorder where
  "replay_recorder = projr (fst (New example_env ''demo'' stored_world))"

definition replay_world :: "files world" where
  "replay_world = snd (New example_env ''demo'' stored_world)"

section \<open>Auxiliary notions for the proofs\<close>

text \<open>The interaction that the recording branch builds.\<close>

definition recorded ::
  "http_Request \<Rightarrow> http_Request \<Rightarrow> nat \<Rightarrow> http_Response \<Rightarrow> string \<Rightarrow> Interaction" where
  "recorded r copiedReq n resp respBody =
     \<lparr>i_Request =
        \<lparr>cq_Body = (case rq_Body r of None \<Rightarrow> [] | Some b \<Rightarrow> take n (unread b)),
         cq_Form = rq_PostForm copiedReq,
         cq_Headers = rq_Header r,
         cq_URL = rq_URL r,
         cq_Method = rq_Method r\<rparr>,
      i_Response =
        \<lparr>cs_Body = respBody,
         cs_Headers = rs_Header resp,
         cs_Status = rs_Status resp,
         cs_Code = rs_StatusCode resp\<rparr>\<rparr>"

text \<open>The world after the real call for \<open>r\<close> has left the outside in state \<open>x\<close>.\<close>

definition called :: "http_Request \<Rightarrow> 'x \<Rightarrow> 'x world \<Rightarrow> 'x world" where
  "called r x w = w\<lparr>ext := x, io_log := io_log w @ [EvDo (install_tee r)]\<rparr>"

text \<open>The recorder that \<open>New\<close> builds around a cassette address.\<close>

definition new_recorder :: "nat \<Rightarrow> int \<Rightarrow> Recorder" where
  "new_recorder c mode =
     \<lparr>r_mode = mode, r_cassette = c, r_Transport = \<lparr>t_c = c, t_mode = mode\<rparr>\<rparr>"

text \<open>Every cassette of \<open>w\<close> is, in \<open>w1\<close>, the same or longer at its end.\<close>

definition grows :: "'x world \<Rightarrow> 'x world \<Rightarrow> bool" where
  "grows w w1 \<longleftrightarrow> (\<forall>a. prefix (c_Interactions (heap w a)) (c_Interactions (heap w1 a)))"

section \<open>Facts about the functions\<close>

subsection \<open>Requests and worlds\<close>

lemma install_tee_fields [simp]:
  "rq_Method (install_tee r) = rq_Method r"
  "rq_URL (install_tee r) = rq_URL r"
  "rq_Header (install_tee r) = rq_Header r"
  "rq_Body (install_tee r) = map_option (\<lambda>b. NopCloser (TeeReader b)) (rq_Body r)"
  by (simp_all add: install_tee_def split: option.splits)

lemma consume_fields [simp]:
  "rq_Method (consume n r) = rq_Method r"
  "rq_URL (consume n r) = rq_URL r"
  "rq_Header (consume n r) = rq_Header r"
  "rq_Body (consume n r) = map_option (advance n) (rq_Body r)"
  by (simp_all add: consume_def)




lemma heap_called [simp]: "heap (called r x w) = heap w"
  by (simp add: called_def)

lemma io_log_called [simp]: "io_log (called r x w) = io_log w @ [EvDo (install_tee r)]"
  by (simp add: called_def)

lemma heap_AddInteraction [simp]:
  "heap (AddInteraction c i w) =
     (heap w)(c := (heap w c)\<lparr>c_Interactions := c_Interactions (heap w c) @ [i]\<rparr>)"
  by (simp add: AddInteraction_def)

lemma io_log_AddInteraction [simp]: "io_log (AddInteraction c i w) = io_log w"
  by (simp add: AddInteraction_def)

lemma recording_is_not_replaying: "mode = ModeRecording \<Longrightarrow> mode \<noteq> ModeReplaying"
  by (simp add: ModeRecording_def ModeReplaying_def)

subsection \<open>The paths of requestHandler\<close>

lemma requestHandler_replay:
  "requestHandler env r c ModeReplaying w = (GetInteraction env (heap w c) r, r, w)"
  by (simp add: requestHandler_def)


lemma requestHandler_recording:
  assumes "mode \<noteq> ModeReplaying"
    and "DumpRequestOut env r = Inr reqBytes"
    and "ReadRequest env reqBytes = Inr parsedReq"
    and "ParseForm env parsedReq = Inr copiedReq"
    and "client_Do env (install_tee r) (ext w) = ((n, res), x)"
  shows "requestHandler env r c mode w =
    (case res of
       Inl err \<Rightarrow> (Inl err, consume n (install_tee r), called r x w)
     | Inr resp \<Rightarrow>
       (case ReadAll (rs_Body resp) of
          Inl err \<Rightarrow> (Inl err, consume n (install_tee r), called r x w)
        | Inr respBody \<Rightarrow>
            (Inr (recorded r copiedReq n resp respBody), consume n (install_tee r),
             AddInteraction c (recorded r copiedReq n resp respBody) (called r x w))))"
  using assms
  by (simp add: requestHandler_def Let_def recorded_def called_def
      split: sum.splits option.splits)


subsection \<open>The two ends of RoundTrip\<close>

lemma RoundTrip_failure:
  assumes "requestHandler env r (t_c t) (t_mode t) w = (Inl err, r1, w1)"
  shows "RoundTrip env t r w = (Panic (process_failure r1 err), r1, w1)"
  using assms by (simp add: RoundTrip_def)

lemma RoundTrip_success:
  assumes "requestHandler env r (t_c t) (t_mode t) w = (Inr i, r1, w1)"
  shows "RoundTrip env t r w =
     (Return (Inr
        \<lparr>rs_Status = cs_Status (i_Response i),
         rs_StatusCode = cs_Code (i_Response i),
         rs_Proto = ''HTTP/1.0'', rs_ProtoMajor = 1, rs_ProtoMinor = 0,
         rs_Request = r1,
         rs_Header = cs_Headers (i_Response i),
         rs_Close = True,
         rs_ContentLength = int (length (cs_Body (i_Response i))),
         rs_Body = NopCloser (Stream (cs_Body (i_Response i)) None)\<rparr>), r1, w1)"
  using assms by (simp add: RoundTrip_def Let_def)

lemma RoundTrip_replaying:
  assumes "t_mode t = ModeReplaying"
  shows "snd (RoundTrip env t r w) = (r, w)"
  using assms
  by (simp add: RoundTrip_def requestHandler_replay Let_def split: sum.splits)

subsection \<open>The three ends of New\<close>

lemma New_not_exist:
  assumes "os_IsNotExist (os_Stat env (name @ ''.yaml'') (ext w))"
  shows "New env name w =
     (Inr (new_recorder (next_addr w) ModeRecording),
      w\<lparr>heap := (heap w)(next_addr w := cassette_New name),
        next_addr := Suc (next_addr w),
        io_log := io_log w @ [EvStat (name @ ''.yaml'')]\<rparr>)"
  using assms by (simp add: New_def Let_def alloc_def new_recorder_def)

lemma New_load_fails:
  assumes "\<not> os_IsNotExist (os_Stat env (name @ ''.yaml'') (ext w))"
    and "cassette_Load env name (ext w) = Inl err"
  shows "New env name w =
     (Inl err, w\<lparr>io_log := io_log w @ [EvStat (name @ ''.yaml''), EvLoad name]\<rparr>)"
  using assms by (simp add: New_def Let_def)

lemma New_loaded:
  assumes "\<not> os_IsNotExist (os_Stat env (name @ ''.yaml'') (ext w))"
    and "cassette_Load env name (ext w) = Inr cas"
  shows "New env name w =
     (Inr (new_recorder (next_addr w) ModeReplaying),
      w\<lparr>heap := (heap w)(next_addr w := cas),
        next_addr := Suc (next_addr w),
        io_log := io_log w @ [EvStat (name @ ''.yaml''), EvLoad name]\<rparr>)"
  using assms by (simp add: New_def Let_def alloc_def new_recorder_def)

lemma IsNotExist_is_error:
  "os_IsNotExist e \<Longrightarrow> e \<noteq> None"
  by (cases e) auto


subsection \<open>Stop\<close>

lemma Stop_replaying:
  assumes "r_mode rec = ModeReplaying"
  shows "Stop env rec w = (None, w)"
  using assms by (simp add: Stop_def ModeRecording_def ModeReplaying_def)


subsection \<open>Cassettes only grow\<close>

lemma grows_refl [simp]: "grows w w"
  by (simp add: grows_def)






subsection \<open>Running the concrete environment\<close>

lemmas example_defs =
  example_env_def example_world_def example_get_def example_post_def
  example_response_def example_interaction_def stored_world_def cassette_New_def
  unreachable_env_def readonly_env_def corrupt_env_def denied_env_def

lemmas run_defs =
  RoundTrip_def requestHandler_def New_def Stop_def alloc_def AddInteraction_def
  install_tee_def consume_def process_failure_def Let_def ModeRecording_def
  ModeReplaying_def

section \<open>The claims\<close>

subsection \<open>C1: failures of the capture step\<close>

text \<open>
  C1 says that a failure inside the capture step comes back from
  \<open>Transport.RoundTrip\<close> as an ordinary error result and never aborts. The code
  panics instead. Here the cassette is empty and the transport replays, so the
  lookup misses; \<open>RoundTrip\<close> does not return the error, it panics with it.
\<close>

theorem RoundTrip_returns_failure_counterexample:
  "fst (requestHandler example_env example_get 0 ModeReplaying example_world)
     = Inl (ErrOther ''requested interaction not found'')
   \<and> fst (RoundTrip example_env \<lparr>t_c = 0, t_mode = ModeReplaying\<rparr> example_get example_world)
     = Panic (ErrOther
         ''Failed to process request for URL http://example.test/a: requested interaction not found'')"
  by (simp add: run_defs example_defs)

text \<open>
  C1, amended to what the code does: whenever the capture step fails, for whatever
  reason, \<open>RoundTrip\<close> panics with an error that names the request's URL and the
  failure; it never returns an error result.
\<close>

theorem RoundTrip_panics_on_capture_failure:
  "(\<forall>err r1 w1. requestHandler env r (t_c t) (t_mode t) w = (Inl err, r1, w1)
       \<longrightarrow> RoundTrip env t r w = (Panic (process_failure r1 err), r1, w1))
   \<and> (\<forall>err. fst (RoundTrip env t r w) \<noteq> Return (Inl err))"
proof -
  obtain out r1 w1 where rh: "requestHandler env r (t_c t) (t_mode t) w = (out, r1, w1)"
    by (metis prod_cases3)
  show ?thesis
  proof (cases out)
    case (Inl err)
    with rh RoundTrip_failure [of env r t w err r1 w1] show ?thesis
      by simp
  next
    case (Inr i)
    with rh RoundTrip_success [of env r t w i r1 w1] show ?thesis
      by simp
  qed
qed

theorem RoundTrip_panics_on_capture_failure_witness:
  "requestHandler unreachable_env example_get 0 ModeRecording example_world
     = (Inl (ErrOther ''connection refused''), example_get,
        called example_get Map.empty example_world)
   \<and> RoundTrip unreachable_env \<lparr>t_c = 0, t_mode = ModeRecording\<rparr> example_get example_world
     = (Panic (ErrOther
          ''Failed to process request for URL http://example.test/a: connection refused''),
        example_get, called example_get Map.empty example_world)"
proof -
  have h: "requestHandler unreachable_env example_get
             (t_c \<lparr>t_c = 0, t_mode = ModeRecording\<rparr>) (t_mode \<lparr>t_c = 0, t_mode = ModeRecording\<rparr>)
             example_world
           = (Inl (ErrOther ''connection refused''), example_get,
              called example_get Map.empty example_world)"
    by (simp add: run_defs example_defs called_def)
  from RoundTrip_panics_on_capture_failure
         [of unreachable_env example_get "\<lparr>t_c = 0, t_mode = ModeRecording\<rparr>" example_world] h
  show ?thesis
    by (simp add: process_failure_def example_get_def)
qed

subsection \<open>C2: recording, then replaying\<close>



subsection \<open>C3: replaying changes nothing\<close>

text \<open>
  C3: when the recorder and its transport are in replaying mode, any sequence of
  round trips, cancellations and stops leaves the world as it was: the cassettes
  in memory, the state outside the process and the log of outside calls, where a
  write to storage would show. The capture function is then the cassette's lookup
  and nothing else, and \<open>Stop\<close> returns no error and the same world.
\<close>

theorem replaying_leaves_world_unchanged:
  assumes "r_mode rec = ModeReplaying" and "t_mode (r_Transport rec) = ModeReplaying"
  shows "run_ops env rec ops w = w
     \<and> (\<forall>r. requestHandler env r (t_c (r_Transport rec)) (t_mode (r_Transport rec)) w
            = (GetInteraction env (heap w (t_c (r_Transport rec))) r, r, w))
     \<and> Stop env rec w = (None, w)"
proof -
  have "run_ops env rec ops w = w"
  proof (induction ops)
    case Nil
    show ?case by simp
  next
    case (Cons a ops)
    show ?case
    proof (cases a)
      case (OpRoundTrip r)
      obtain out r1 w1 where rt: "RoundTrip env (r_Transport rec) r w = (out, r1, w1)"
        by (metis prod_cases3)
      with RoundTrip_replaying [OF assms(2), of env r w] have "w1 = w"
        by simp
      with rt Cons OpRoundTrip show ?thesis
        by (cases out) simp_all
    next
      case (OpCancelRequest r)
      with Cons show ?thesis
        by (simp add: CancelRequest_def)
    next
      case OpStop
      with Cons show ?thesis
        by (simp add: Stop_replaying [OF assms(1)])
    qed
  qed
  then show ?thesis
    using assms by (simp add: requestHandler_replay Stop_replaying)
qed

theorem replaying_leaves_world_unchanged_witness:
  "r_mode replay_recorder = ModeReplaying
   \<and> t_mode (r_Transport replay_recorder) = ModeReplaying
   \<and> c_Interactions (heap replay_world (r_cassette replay_recorder)) = [example_interaction]
   \<and> run_ops example_env replay_recorder
        [OpRoundTrip example_get, OpStop, OpCancelRequest example_get,
         OpRoundTrip example_get, OpRoundTrip example_post, OpStop] replay_world
       = replay_world
   \<and> io_log replay_world = [EvStat ''demo.yaml'', EvLoad ''demo'']
   \<and> ext replay_world = [''demo.yaml'' \<mapsto> [example_interaction]]
   \<and> Stop example_env replay_recorder replay_world = (None, replay_world)"
proof -
  have rec: "replay_recorder = new_recorder 0 ModeReplaying"
    by (simp add: replay_recorder_def New_def Let_def alloc_def new_recorder_def example_defs)
  have m: "r_mode replay_recorder = ModeReplaying"
    "t_mode (r_Transport replay_recorder) = ModeReplaying"
    by (simp_all add: rec new_recorder_def)
  have w: "c_Interactions (heap replay_world (r_cassette replay_recorder)) = [example_interaction]"
    "io_log replay_world = [EvStat ''demo.yaml'', EvLoad ''demo'']"
    "ext replay_world = [''demo.yaml'' \<mapsto> [example_interaction]]"
    by (simp_all add: rec new_recorder_def replay_world_def New_def Let_def alloc_def
        example_defs)
  from replaying_leaves_world_unchanged
         [OF m, of example_env
            "[OpRoundTrip example_get, OpStop, OpCancelRequest example_get,
              OpRoundTrip example_get, OpRoundTrip example_post, OpStop]" replay_world] m w
  show ?thesis
    by (simp del: run_ops.simps)
qed

subsection \<open>C4: New\<close>

text \<open>
  C4: \<open>New\<close> probes the file \<^verbatim>\<open>name.yaml\<close>. If the probe reports that it does not
  exist, \<open>New\<close> returns a recorder in recording mode over a new, empty cassette. If
  the probe finds it and loading succeeds, \<open>New\<close> returns a recorder in replaying
  mode over the loaded cassette. If the probe finds it and loading fails, \<open>New\<close>
  returns the load error and no recorder, and no cassette object has been created.
  Whenever a recorder is returned, its transport holds the recorder's own cassette
  address and the recorder's mode.
\<close>

theorem New_creates_or_loads:
  "(os_IsNotExist (os_Stat env (name @ ''.yaml'') (ext w)) \<longrightarrow>
      (\<exists>rec w1. New env name w = (Inr rec, w1) \<and> r_mode rec = ModeRecording
         \<and> heap w1 (r_cassette rec) = cassette_New name
         \<and> c_Interactions (heap w1 (r_cassette rec)) = []))
   \<and> (\<forall>cas. os_Stat env (name @ ''.yaml'') (ext w) = None
            \<and> cassette_Load env name (ext w) = Inr cas \<longrightarrow>
      (\<exists>rec w1. New env name w = (Inr rec, w1) \<and> r_mode rec = ModeReplaying
         \<and> heap w1 (r_cassette rec) = cas))
   \<and> (\<forall>err. os_Stat env (name @ ''.yaml'') (ext w) = None
            \<and> cassette_Load env name (ext w) = Inl err \<longrightarrow>
      (\<exists>w1. New env name w = (Inl err, w1) \<and> heap w1 = heap w
         \<and> next_addr w1 = next_addr w \<and> ext w1 = ext w))
   \<and> (\<forall>rec w1. New env name w = (Inr rec, w1) \<longrightarrow>
         t_c (r_Transport rec) = r_cassette rec \<and> t_mode (r_Transport rec) = r_mode rec)
   \<and> (\<exists>evs. io_log (snd (New env name w)) = io_log w @ EvStat (name @ ''.yaml'') # evs)"
proof (cases "os_IsNotExist (os_Stat env (name @ ''.yaml'') (ext w))")
  case True
  from True have "os_Stat env (name @ ''.yaml'') (ext w) \<noteq> None"
    by (rule IsNotExist_is_error)
  with New_not_exist [OF True] True show ?thesis
    by (auto simp add: new_recorder_def cassette_New_def)
next
  case False
  show ?thesis
  proof (cases "cassette_Load env name (ext w)")
    case (Inl err)
    from New_load_fails [OF False Inl] False Inl show ?thesis
      by simp
  next
    case (Inr cas)
    from New_loaded [OF False Inr] False Inr show ?thesis
      by (simp add: new_recorder_def)
  qed
qed

theorem New_creates_or_loads_witness:
  "os_IsNotExist (os_Stat example_env (''demo'' @ ''.yaml'') (ext example_world))
   \<and> fst (New example_env ''demo'' example_world) = Inr (new_recorder 0 ModeRecording)
   \<and> heap (snd (New example_env ''demo'' example_world)) 0 = cassette_New ''demo''
   \<and> os_Stat example_env (''demo'' @ ''.yaml'') (ext stored_world) = None
   \<and> cassette_Load example_env ''demo'' (ext stored_world)
       = Inr \<lparr>c_Name = ''demo'', c_Interactions = [example_interaction]\<rparr>
   \<and> fst (New example_env ''demo'' stored_world) = Inr (new_recorder 0 ModeReplaying)
   \<and> heap (snd (New example_env ''demo'' stored_world)) 0
       = \<lparr>c_Name = ''demo'', c_Interactions = [example_interaction]\<rparr>
   \<and> os_Stat corrupt_env (''demo'' @ ''.yaml'') (ext stored_world) = None
   \<and> cassette_Load corrupt_env ''demo'' (ext stored_world)
       = Inl (ErrOther ''yaml: did not find expected key'')
   \<and> fst (New corrupt_env ''demo'' stored_world)
       = Inl (ErrOther ''yaml: did not find expected key'')
   \<and> heap (snd (New corrupt_env ''demo'' stored_world)) = heap stored_world"
proof -
  have absent: "os_IsNotExist (os_Stat example_env (''demo'' @ ''.yaml'') (ext example_world))"
    by (simp add: example_defs)
  have present: "os_Stat example_env (''demo'' @ ''.yaml'') (ext stored_world) = None"
    "os_Stat corrupt_env (''demo'' @ ''.yaml'') (ext stored_world) = None"
    by (simp_all add: example_defs)
  have loads: "cassette_Load example_env ''demo'' (ext stored_world)
       = Inr \<lparr>c_Name = ''demo'', c_Interactions = [example_interaction]\<rparr>"
    by (simp add: example_defs)
  have fails: "cassette_Load corrupt_env ''demo'' (ext stored_world)
       = Inl (ErrOther ''yaml: did not find expected key'')"
    by (simp add: example_defs)
  from New_creates_or_loads [of example_env "''demo''" example_world] absent
  have a: "fst (New example_env ''demo'' example_world) = Inr (new_recorder 0 ModeRecording)
         \<and> heap (snd (New example_env ''demo'' example_world)) 0 = cassette_New ''demo''"
    by (auto simp add: new_recorder_def) (simp_all add: New_def Let_def alloc_def example_defs)
  from New_creates_or_loads [of example_env "''demo''" stored_world] present(1) loads
  have b: "fst (New example_env ''demo'' stored_world) = Inr (new_recorder 0 ModeReplaying)
         \<and> heap (snd (New example_env ''demo'' stored_world)) 0
             = \<lparr>c_Name = ''demo'', c_Interactions = [example_interaction]\<rparr>"
    by (auto simp add: new_recorder_def) (simp_all add: New_def Let_def alloc_def example_defs)
  from New_creates_or_loads [of corrupt_env "''demo''" stored_world] present(2) fails
  have c: "fst (New corrupt_env ''demo'' stored_world)
             = Inl (ErrOther ''yaml: did not find expected key'')
         \<and> heap (snd (New corrupt_env ''demo'' stored_world)) = heap stored_world"
    by auto
  from absent present loads fails a b c show ?thesis
    by simp
qed

subsection \<open>C5: Stop\<close>

text \<open>
  C5: in recording mode \<open>Stop\<close> saves the recorder's cassette, once, and returns
  what saving returned, so a failure to persist reaches the caller; in any other
  mode, replaying among them, it touches nothing outside or inside the process and
  returns no error.
\<close>

theorem Stop_saves_iff_recording:
  "(r_mode rec = ModeRecording \<longrightarrow>
      Stop env rec w =
        (fst (cassette_Save env (heap w (r_cassette rec)) (ext w)),
         w\<lparr>ext := snd (cassette_Save env (heap w (r_cassette rec)) (ext w)),
           io_log := io_log w @ [EvSave (heap w (r_cassette rec))]\<rparr>))
   \<and> (r_mode rec \<noteq> ModeRecording \<longrightarrow> Stop env rec w = (None, w))
   \<and> (r_mode rec = ModeReplaying \<longrightarrow> Stop env rec w = (None, w))"
  by (auto simp add: Stop_def Let_def ModeRecording_def ModeReplaying_def
      split: prod.splits option.splits)

theorem Stop_saves_iff_recording_witness:
  "r_mode (new_recorder 0 ModeRecording) = ModeRecording
   \<and> Stop example_env (new_recorder 0 ModeRecording) example_world
       = (None, example_world\<lparr>ext := [''.yaml'' \<mapsto> []],
                               io_log := [EvSave (cassette_New [])]\<rparr>)
   \<and> Stop readonly_env (new_recorder 0 ModeRecording) example_world
       = (Some (ErrOther ''read-only file system''),
          example_world\<lparr>io_log := [EvSave (cassette_New [])]\<rparr>)
   \<and> r_mode (new_recorder 0 ModeReplaying) = ModeReplaying
   \<and> r_mode (new_recorder 0 ModeReplaying) \<noteq> ModeRecording
   \<and> Stop readonly_env (new_recorder 0 ModeReplaying) example_world = (None, example_world)"
  using Stop_saves_iff_recording [of "new_recorder 0 ModeRecording" example_env example_world]
    Stop_saves_iff_recording [of "new_recorder 0 ModeRecording" readonly_env example_world]
    Stop_saves_iff_recording [of "new_recorder 0 ModeReplaying" readonly_env example_world]
  by (simp add: new_recorder_def example_defs ModeRecording_def ModeReplaying_def)

subsection \<open>C6: a failed real call\<close>

text \<open>
  C6: in recording mode, once the request has been duplicated, a real call that
  fails makes the capture function return that failure, and no cassette has
  changed: nothing was appended.
\<close>

theorem network_failure_appends_nothing:
  assumes "mode = ModeRecording"
    and "DumpRequestOut env r = Inr reqBytes"
    and "ReadRequest env reqBytes = Inr parsedReq"
    and "ParseForm env parsedReq = Inr copiedReq"
    and "client_Do env (install_tee r) (ext w) = ((n, Inl err), x)"
  shows "fst (requestHandler env r c mode w) = Inl err
     \<and> heap (snd (snd (requestHandler env r c mode w))) = heap w"
proof -
  from assms(1) have "mode \<noteq> ModeReplaying"
    by (rule recording_is_not_replaying)
  from requestHandler_recording [OF this assms(2-5)] show ?thesis
    by simp
qed

theorem network_failure_appends_nothing_witness:
  "client_Do unreachable_env (install_tee example_post) (ext example_world)
     = ((0, Inl (ErrOther ''connection refused'')), Map.empty)
   \<and> fst (requestHandler unreachable_env example_post 0 ModeRecording example_world)
       = Inl (ErrOther ''connection refused'')
   \<and> heap (snd (snd (requestHandler unreachable_env example_post 0 ModeRecording example_world)))
       = heap example_world
   \<and> c_Interactions (heap example_world 0) = []"
proof -
  have dump: "DumpRequestOut unreachable_env example_post = Inr ''POST http://example.test/b''"
    by (simp add: example_defs)
  have rd: "ReadRequest unreachable_env ''POST http://example.test/b''
              = Inr \<lparr>rq_Method = ''POST'', rq_URL = ''http://example.test/b'',
                     rq_Header = Map.empty, rq_Body = None, rq_PostForm = Map.empty\<rparr>"
    by (simp add: example_defs)
  have pf: "ParseForm unreachable_env
              \<lparr>rq_Method = ''POST'', rq_URL = ''http://example.test/b'',
               rq_Header = Map.empty, rq_Body = None, rq_PostForm = Map.empty\<rparr>
            = Inr \<lparr>rq_Method = ''POST'', rq_URL = ''http://example.test/b'',
                   rq_Header = Map.empty, rq_Body = None, rq_PostForm = Map.empty\<rparr>"
    by (simp add: example_defs)
  have do: "client_Do unreachable_env (install_tee example_post) (ext example_world)
              = ((0, Inl (ErrOther ''connection refused'')), Map.empty)"
    by (simp add: example_defs)
  from network_failure_appends_nothing [OF refl dump rd pf do, of 0] do show ?thesis
    by (simp add: example_world_def cassette_New_def)
qed

subsection \<open>C7: the synthesized response\<close>

text \<open>
  C7: whenever the capture step succeeds with an interaction, \<open>RoundTrip\<close> returns a
  response whose status line, status code and headers are the interaction's, whose
  protocol is HTTP/1.0, whose body is a new reader over the stored body bytes, all
  of them unread, whose content length is the number of those bytes, and whose
  \<open>Close\<close> flag is set, which keeps the connection out of any pool.
\<close>

theorem RoundTrip_synthesizes_response:
  assumes "requestHandler env r (t_c t) (t_mode t) w = (Inr i, r1, w1)"
  shows "\<exists>resp. RoundTrip env t r w = (Return (Inr resp), r1, w1)
      \<and> rs_Status resp = cs_Status (i_Response i)
      \<and> rs_StatusCode resp = cs_Code (i_Response i)
      \<and> rs_Header resp = cs_Headers (i_Response i)
      \<and> rs_Proto resp = ''HTTP/1.0'' \<and> rs_ProtoMajor resp = 1 \<and> rs_ProtoMinor resp = 0
      \<and> rs_Body resp = NopCloser (Stream (cs_Body (i_Response i)) None)
      \<and> ReadAll (rs_Body resp) = Inr (cs_Body (i_Response i))
      \<and> rs_ContentLength resp = int (length (cs_Body (i_Response i)))
      \<and> rs_Close resp"
  by (simp add: RoundTrip_success [OF assms])

theorem RoundTrip_synthesizes_response_witness:
  "requestHandler example_env example_get 0 ModeRecording example_world
     = (Inr example_interaction, example_get,
        AddInteraction 0 example_interaction (called example_get Map.empty example_world))
   \<and> (\<exists>resp. RoundTrip example_env \<lparr>t_c = 0, t_mode = ModeRecording\<rparr> example_get example_world
              = (Return (Inr resp), example_get,
                 AddInteraction 0 example_interaction
                   (called example_get Map.empty example_world))
      \<and> rs_Status resp = ''200 OK'' \<and> rs_StatusCode resp = 200
      \<and> rs_Header resp = [''Content-Type'' \<mapsto> [''text/plain'']]
      \<and> rs_Proto resp = ''HTTP/1.0''
      \<and> rs_Body resp = NopCloser (Stream ''ok'' None)
      \<and> rs_ContentLength resp = 2 \<and> rs_Close resp)"
proof -
  have h: "requestHandler example_env example_get
             (t_c \<lparr>t_c = 0, t_mode = ModeRecording\<rparr>) (t_mode \<lparr>t_c = 0, t_mode = ModeRecording\<rparr>)
             example_world
           = (Inr example_interaction, example_get,
              AddInteraction 0 example_interaction
                (called example_get Map.empty example_world))"
    by (simp add: run_defs example_defs called_def)
  from RoundTrip_synthesizes_response [OF h] h show ?thesis
    by (auto simp add: example_interaction_def)
qed

subsection \<open>C8: a request without a body\<close>



subsection \<open>C9: a request with a body\<close>



subsection \<open>C10: the mode decision\<close>

text \<open>
  C10: a recorder that \<open>New\<close> returns is in recording mode only if
  \<^verbatim>\<open>os.IsNotExist\<close> holds of the probe's error. When the probe fails with any other
  error, \<open>New\<close> goes on to load the cassette: the load is attempted, its failure is
  the result of \<open>New\<close>, and its success gives a recorder in replaying mode over what
  was loaded. So the mode does not follow from the file's existence alone.
\<close>

theorem New_records_only_if_not_exist:
  "(\<forall>rec w1. New env name w = (Inr rec, w1) \<and> r_mode rec = ModeRecording
       \<longrightarrow> os_IsNotExist (os_Stat env (name @ ''.yaml'') (ext w)))
   \<and> (\<forall>e. os_Stat env (name @ ''.yaml'') (ext w) = Some e \<and> \<not> os_IsNotExist (Some e) \<longrightarrow>
        io_log (snd (New env name w)) = io_log w @ [EvStat (name @ ''.yaml''), EvLoad name]
        \<and> (case cassette_Load env name (ext w) of
              Inl err \<Rightarrow> fst (New env name w) = Inl err
            | Inr cas \<Rightarrow>
                (\<exists>rec. fst (New env name w) = Inr rec \<and> r_mode rec = ModeReplaying
                   \<and> heap (snd (New env name w)) (r_cassette rec) = cas)))"
proof (cases "os_IsNotExist (os_Stat env (name @ ''.yaml'') (ext w))")
  case True
  then show ?thesis
    by auto
next
  case False
  show ?thesis
  proof (cases "cassette_Load env name (ext w)")
    case (Inl err)
    from New_load_fails [OF False Inl] False Inl show ?thesis
      by simp
  next
    case (Inr cas)
    from New_loaded [OF False Inr] False Inr show ?thesis
      by (simp add: new_recorder_def ModeRecording_def ModeReplaying_def)
  qed
qed

theorem New_records_only_if_not_exist_witness:
  "New example_env ''demo'' example_world
     = (Inr (new_recorder 0 ModeRecording), snd (New example_env ''demo'' example_world))
   \<and> r_mode (new_recorder 0 ModeRecording) = ModeRecording
   \<and> os_IsNotExist (os_Stat example_env (''demo'' @ ''.yaml'') (ext example_world))
   \<and> os_Stat denied_env (''demo'' @ ''.yaml'') (ext stored_world)
       = Some (ErrOther ''permission denied'')
   \<and> \<not> os_IsNotExist (Some (ErrOther ''permission denied''))
   \<and> io_log (snd (New denied_env ''demo'' stored_world)) = [EvStat ''demo.yaml'', EvLoad ''demo'']
   \<and> fst (New denied_env ''demo'' stored_world) = Inl (ErrOther ''permission denied'')"
proof -
  have new: "New example_env ''demo'' example_world
     = (Inr (new_recorder 0 ModeRecording), snd (New example_env ''demo'' example_world))"
    by (simp add: New_def Let_def alloc_def new_recorder_def example_defs)
  have mode: "r_mode (new_recorder 0 ModeRecording) = ModeRecording"
    by (simp add: new_recorder_def)
  have stat: "os_Stat denied_env (''demo'' @ ''.yaml'') (ext stored_world)
       = Some (ErrOther ''permission denied'')"
    by (simp add: example_defs)
  have load: "cassette_Load denied_env ''demo'' (ext stored_world)
       = Inl (ErrOther ''permission denied'')"
    by (simp add: example_defs)
  from New_records_only_if_not_exist [of example_env "''demo''" example_world] new mode
  have a: "os_IsNotExist (os_Stat example_env (''demo'' @ ''.yaml'') (ext example_world))"
    by blast
  from New_records_only_if_not_exist [of denied_env "''demo''" stored_world] stat load
  have b: "io_log (snd (New denied_env ''demo'' stored_world))
             = io_log stored_world @ [EvStat (''demo'' @ ''.yaml''), EvLoad ''demo'']
         \<and> fst (New denied_env ''demo'' stored_world) = Inl (ErrOther ''permission denied'')"
    by simp
  from new mode stat a b show ?thesis
    by (simp add: example_defs)
qed

end
